theory Spec2Isabelle
  imports Complex_Main
begin

section \<open>Strings\<close>

text \<open>
  A Python \<open>str\<close> is modelled as a list of code points below 256 (\<open>char\<close>).
  \<open>isspace\<close> is \<open>str.isspace\<close> on that range, \<open>strip\<close> is \<open>str.strip()\<close> with no
  argument, \<open>lower\<close> is \<open>str.lower()\<close> (on that range every letter lowers to a single
  letter 32 places up) and \<open>endswith\<close> is \<open>str.endswith\<close> with a tuple of suffixes.
\<close>

definition isspace :: "char \<Rightarrow> bool" where
  "isspace c = (of_char c \<in> {9, 10, 11, 12, 13, 28, 29, 30, 31, 32, 133, 160 :: nat})"

definition strip :: "string \<Rightarrow> string" where
  "strip s = rev (dropWhile isspace (rev (dropWhile isspace s)))"

definition lower_char :: "char \<Rightarrow> char" where
  "lower_char c =
     (let n = of_char c :: nat
      in if (65 \<le> n \<and> n \<le> 90) \<or> (192 \<le> n \<and> n \<le> 222 \<and> n \<noteq> 215)
         then char_of (n + 32) else c)"

definition lower :: "string \<Rightarrow> string" where
  "lower s = map lower_char s"

definition endswith1 :: "string \<Rightarrow> string \<Rightarrow> bool" where
  "endswith1 s suffix = (take (length suffix) (rev s) = rev suffix)"

definition endswith :: "string \<Rightarrow> string list \<Rightarrow> bool" where
  "endswith s suffixes = list_ex (endswith1 s) suffixes"

section \<open>The builtin \<open>float\<close> on a string\<close>

text \<open>
  \<open>float(s)\<close> strips white space and then reads
  \<^verbatim>\<open>[sign] (floatnumber | "inf" | "infinity" | "nan")\<close>, the words in any case, with
  \<^verbatim>\<open>floatnumber ::= ([digitpart] "." digitpart | digitpart ["."]) [("e"|"E") [sign] digitpart]\<close>
  and \<^verbatim>\<open>digitpart ::= digit (["_"] digit)*\<close>; anything else raises ValueError
  (\<open>None\<close> here). The flag of \<open>digitpart\<close> says whether the underscores are allowed:
  Python allows them, the database's own reading of a numeric text does not.

  A finite result carries the exact decimal value of the text. The double that Python
  compares is that value rounded to nearest-even, which is \<open>\<le> 0\<close> exactly when the
  value is at most half of the least positive double, \<open>2 ^ 1075\<close> in the denominator;
  \<open>le_zero\<close> is the test \<open>price <= 0\<close>.
\<close>

datatype pyfloat = Finite real | PosInf | NegInf | NaN

definition isdigit :: "char \<Rightarrow> bool" where
  "isdigit c = (48 \<le> (of_char c :: nat) \<and> (of_char c :: nat) \<le> 57)"

definition digit_val :: "char \<Rightarrow> nat" where
  "digit_val c = of_char c - 48"

fun digits_tail :: "bool \<Rightarrow> string \<Rightarrow> nat list option" where
  "digits_tail us [] = Some []"
| "digits_tail us [c] = (if isdigit c then Some [digit_val c] else None)"
| "digits_tail us (c # d # cs) =
     (if isdigit c then map_option (Cons (digit_val c)) (digits_tail us (d # cs))
      else if us \<and> c = CHR ''_'' \<and> isdigit d
        then map_option (Cons (digit_val d)) (digits_tail us cs)
      else None)"

definition digitpart :: "bool \<Rightarrow> string \<Rightarrow> nat list option" where
  "digitpart us s =
     (case s of
        [] \<Rightarrow> None
      | c # cs \<Rightarrow>
          if isdigit c then map_option (Cons (digit_val c)) (digits_tail us cs) else None)"

definition digits_nat :: "nat list \<Rightarrow> nat" where
  "digits_nat ds = foldl (\<lambda>a d. 10 * a + d) 0 ds"

definition split_sign :: "string \<Rightarrow> bool \<times> string" where
  "split_sign s =
     (case s of
        [] \<Rightarrow> (False, [])
      | c # cs \<Rightarrow>
          if c = CHR ''-'' then (True, cs)
          else if c = CHR ''+'' then (False, cs)
          else (False, s))"

definition mantissa :: "bool \<Rightarrow> string \<Rightarrow> (nat list \<times> nat list) option" where
  "mantissa us m =
     (let ip = takeWhile (\<lambda>c. c \<noteq> CHR ''.'') m;
          rest = dropWhile (\<lambda>c. c \<noteq> CHR ''.'') m
      in if rest = [] then map_option (\<lambda>ds. (ds, [])) (digitpart us ip)
         else if ip = [] then map_option (\<lambda>fs. ([], fs)) (digitpart us (tl rest))
         else (case digitpart us ip of
                 None \<Rightarrow> None
               | Some ds \<Rightarrow>
                   if tl rest = [] then Some (ds, [])
                   else map_option (\<lambda>fs. (ds, fs)) (digitpart us (tl rest))))"

definition exponent :: "bool \<Rightarrow> string \<Rightarrow> int option" where
  "exponent us e =
     (let (neg, ds) = split_sign e
      in map_option (\<lambda>ds. if neg then - int (digits_nat ds) else int (digits_nat ds))
           (digitpart us ds))"

definition decimal_value :: "nat list \<Rightarrow> nat list \<Rightarrow> int \<Rightarrow> real" where
  "decimal_value ip fp e =
     (let m = real (digits_nat (ip @ fp)); k = e - int (length fp)
      in if 0 \<le> k then m * 10 ^ nat k else m / 10 ^ nat (- k))"

definition floatnumber :: "bool \<Rightarrow> string \<Rightarrow> real option" where
  "floatnumber us s =
     (let m = takeWhile (\<lambda>c. c \<noteq> CHR ''e'' \<and> c \<noteq> CHR ''E'') s;
          rest = dropWhile (\<lambda>c. c \<noteq> CHR ''e'' \<and> c \<noteq> CHR ''E'') s
      in case mantissa us m of
           None \<Rightarrow> None
         | Some (ip, fp) \<Rightarrow>
             if rest = [] then Some (decimal_value ip fp 0)
             else map_option (decimal_value ip fp) (exponent us (tl rest)))"

definition py_float :: "string \<Rightarrow> pyfloat option" where
  "py_float s =
     (let (neg, r) = split_sign (strip s)
      in if lower r = ''inf'' \<or> lower r = ''infinity''
           then Some (if neg then NegInf else PosInf)
         else if lower r = ''nan'' then Some NaN
         else map_option (\<lambda>v. Finite (if neg then - v else v)) (floatnumber True r))"

fun le_zero :: "pyfloat \<Rightarrow> bool" where
  "le_zero (Finite r) = (r \<le> 1 / 2 ^ 1075)"
| "le_zero PosInf = False"
| "le_zero NegInf = True"
| "le_zero NaN = False"

section \<open>The store\<close>

text \<open>
  The tables are those that \<open>init_db\<close> of app.py creates:
  \<^verbatim>\<open>products(id INTEGER PRIMARY KEY AUTOINCREMENT, name TEXT, price REAL, category TEXT, image TEXT)\<close>
  and \<^verbatim>\<open>users(id, username TEXT UNIQUE, password_hash TEXT)\<close>, every column NOT NULL.
  The name of a product is not declared unique.

  SQLite types values, not columns. A text bound to the REAL column \<open>price\<close> is stored as
  a number when it is a well-formed numeric literal (no underscores, no \<open>inf\<close>, no
  \<open>nan\<close>) and is kept as text otherwise; \<open>real_affinity\<close> is that conversion. A stored
  number is modelled by its exact value; the rounding of doubles is not modelled.
\<close>

datatype sqlval = SqlReal real | SqlText string

definition sqlite_numeric :: "string \<Rightarrow> real option" where
  "sqlite_numeric s =
     (let (neg, r) = split_sign s
      in map_option (\<lambda>v. if neg then - v else v) (floatnumber False r))"

definition real_affinity :: "string \<Rightarrow> sqlval" where
  "real_affinity s = (case sqlite_numeric s of Some r \<Rightarrow> SqlReal r | None \<Rightarrow> SqlText s)"

record product =
  p_id :: nat
  p_name :: string
  p_price :: sqlval
  p_category :: string
  p_image :: string

record user =
  u_id :: nat
  username :: string
  password_hash :: string

text \<open>
  \<open>products\<close> lists the rows in the order a scan returns them (by id). \<open>product_seq\<close> is
  the largest id AUTOINCREMENT has issued. \<open>connections\<close> counts the calls of
  \<open>get_db\<close>: a handler that leaves the whole record as it was has not touched the store.
\<close>

record db =
  products :: "product list"
  users :: "user list"
  product_seq :: nat
  connections :: nat

definition get_db :: "db \<Rightarrow> db" where
  "get_db d = d\<lparr>connections := connections d + 1\<rparr>"

definition get_products :: "db \<Rightarrow> product list \<times> db" where
  "get_products d = (let d1 = get_db d in (products d1, d1))"

definition next_id :: "db \<Rightarrow> nat" where
  "next_id d = fold max (map p_id (products d)) (product_seq d) + 1"

definition insert_product :: "string \<Rightarrow> sqlval \<Rightarrow> string \<Rightarrow> string \<Rightarrow> db \<Rightarrow> db" where
  "insert_product name price category img d =
     d\<lparr>products := products d @
          [\<lparr>p_id = next_id d, p_name = name, p_price = price,
            p_category = category, p_image = img\<rparr>],
       product_seq := next_id d\<rparr>"

definition delete_product :: "nat \<Rightarrow> db \<Rightarrow> db" where
  "delete_product i d = d\<lparr>products := filter (\<lambda>p. p_id p \<noteq> i) (products d)\<rparr>"

definition select_by_id :: "nat \<Rightarrow> db \<Rightarrow> product option" where
  "select_by_id i d = find (\<lambda>p. p_id p = i) (products d)"

definition update_product :: "string \<Rightarrow> sqlval \<Rightarrow> string \<Rightarrow> string \<Rightarrow> nat \<Rightarrow> db \<Rightarrow> db" where
  "update_product name price category img i d =
     d\<lparr>products :=
         map (\<lambda>p. if p_id p = i
                   then p\<lparr>p_name := name, p_price := price,
                          p_category := category, p_image := img\<rparr>
                   else p)
           (products d)\<rparr>"

definition select_user :: "string \<Rightarrow> db \<Rightarrow> user option" where
  "select_user name d = find (\<lambda>u. username u = name) (users d)"

subsection \<open>seed\_products.py\<close>

text \<open>
  The script binds the prices as integers; the REAL column stores them as numbers. On the
  table of app.py no insert of the script violates a constraint, so every row is added.
\<close>

definition seed_rows :: "(string \<times> real \<times> string \<times> string) list" where
  "seed_rows =
     [(''Football'', 499, ''Outdoor'', ''football.jpeg''),
      (''Cricket Bat'', 1299, ''Outdoor'', ''cricket_bat.jpeg''),
      (''Tennis Racket'', 999, ''Indoor'', ''tennis_racket.jpeg''),
      (''Dumbbells'', 999, ''Fitness'', ''dumbbells.jpeg''),
      (''Yoga Mat'', 699, ''Fitness'', ''yoga_mat.jpeg'')]"

definition seed_products :: "db \<Rightarrow> db" where
  "seed_products d =
     fold (\<lambda>(name, price, category, img). insert_product name (SqlReal price) category img)
       seed_rows d"

definition empty_db :: db where
  "empty_db = \<lparr>products = [], users = [], product_seq = 0, connections = 0\<rparr>"

section \<open>Session, request and response\<close>

text \<open>
  A Python \<open>dict\<close> with string keys is an association list in insertion order, its keys
  distinct: \<open>dict_get\<close> is \<open>d.get(k, default)\<close>, \<open>dict_set\<close> is \<open>d[k] = v\<close>,
  \<open>dict_contains\<close> is \<open>k in d\<close> and \<open>dict_del\<close> is \<open>del d[k]\<close> for a key that is there.
\<close>

type_synonym 'v dict = "(string \<times> 'v) list"

definition dict_get :: "'v dict \<Rightarrow> string \<Rightarrow> 'v \<Rightarrow> 'v" where
  "dict_get d k dflt = (case map_of d k of None \<Rightarrow> dflt | Some v \<Rightarrow> v)"

fun dict_set :: "'v dict \<Rightarrow> string \<Rightarrow> 'v \<Rightarrow> 'v dict" where
  "dict_set [] k v = [(k, v)]"
| "dict_set ((k', v') # d) k v =
     (if k' = k then (k, v) # d else (k', v') # dict_set d k v)"

definition dict_contains :: "'v dict \<Rightarrow> string \<Rightarrow> bool" where
  "dict_contains d k = (k \<in> set (map fst d))"

definition dict_del :: "'v dict \<Rightarrow> string \<Rightarrow> 'v dict" where
  "dict_del d k = filter (\<lambda>kv. fst kv \<noteq> k) d"

text \<open>
  The value under the session key \<open>cart\<close>: the legacy list of product names, or the
  mapping from product name to quantity. The key may be absent.
\<close>

datatype cartval = CartList "string list" | CartDict "int dict"

record session =
  s_csrf_token :: "string option"
  s_admin_logged_in :: "bool option"
  s_cart :: "cartval option"
  s_flashes :: "(string \<times> string) list"

definition empty_session :: session where
  "empty_session =
     \<lparr>s_csrf_token = None, s_admin_logged_in = None, s_cart = None, s_flashes = []\<rparr>"

definition flash :: "string \<Rightarrow> string \<Rightarrow> session \<Rightarrow> session" where
  "flash message category s = s\<lparr>s_flashes := s_flashes s @ [(category, message)]\<rparr>"

type_synonym form = "string \<Rightarrow> string option"

definition form_get :: "form \<Rightarrow> string \<Rightarrow> string \<Rightarrow> string" where
  "form_get f k dflt = (case f k of None \<Rightarrow> dflt | Some v \<Rightarrow> v)"

datatype http_method = GET | POST

datatype endpoint =
  EP_home | EP_product_page | EP_cart | EP_admin | EP_admin_login | EP_register

record line_item =
  li_product :: product
  li_qty :: int
  li_subtotal :: real

datatype response =
  Redirect endpoint
| Render string
| RenderProducts "product list" string string
| RenderCart "line_item list" real
| RenderAdmin "product list"

datatype error = TypeError

type_synonym result = "error + (response \<times> session \<times> db)"

section \<open>Helpers of app.py\<close>

definition verify_csrf :: "session \<Rightarrow> form \<Rightarrow> bool" where
  "verify_csrf s f =
     (case s_csrf_token s of
        None \<Rightarrow> False
      | Some session_token \<Rightarrow>
          (case f ''csrf_token'' of
             None \<Rightarrow> False
           | Some form_token \<Rightarrow>
               session_token \<noteq> [] \<and> form_token \<noteq> [] \<and> session_token = form_token))"

text \<open>
  \<open>check_password_hash\<close> is werkzeug's; the handlers take it as a parameter, with the
  stored hash first and the password second.
\<close>

definition verify_password :: "(string \<Rightarrow> string \<Rightarrow> bool) \<Rightarrow> string \<Rightarrow> string \<Rightarrow> bool" where
  "verify_password check_password_hash password pw_hash = check_password_hash pw_hash password"

definition admin_required ::
  "(session \<Rightarrow> db \<Rightarrow> result) \<Rightarrow> session \<Rightarrow> db \<Rightarrow> result" where
  "admin_required f s d =
     (if s_admin_logged_in s = Some True then f s d
      else Inr (Redirect EP_admin_login, s, d))"

definition image_extensions :: "string list" where
  "image_extensions = [''.png'', ''.jpg'', ''.jpeg'', ''.webp'']"

definition validate_product_form ::
  "string \<Rightarrow> string \<Rightarrow> string \<Rightarrow> string \<Rightarrow> string option" where
  "validate_product_form name price category img =
     (if name = [] \<or> price = [] \<or> category = [] \<or> img = []
        then Some ''All fields are required.''
      else (case py_float price of
              None \<Rightarrow> Some ''Price must be a number.''
            | Some v \<Rightarrow>
                if le_zero v then Some ''Price must be greater than zero.''
                else if endswith (lower img) image_extensions then None
                else Some ''Invalid image format.''))"

definition generate_csrf_token :: "string \<Rightarrow> session \<Rightarrow> string \<times> session" where
  \<comment> \<open>the first argument stands for the value \<open>secrets.token_hex(16)\<close> would draw\<close>
  "generate_csrf_token fresh s =
     (case s_csrf_token s of
        None \<Rightarrow> (fresh, s\<lparr>s_csrf_token := Some fresh\<rparr>)
      | Some t \<Rightarrow> (t, s))"

section \<open>Public routes\<close>






section \<open>Cart routes\<close>

text \<open>
  \<open>migrate\<close> is the loop that turns the legacy list into the mapping, with \<open>new_cart\<close> as
  its accumulator; \<open>add_to_cart\<close> and \<open>cart\<close> both run it, \<open>remove_from_cart\<close> does not.
\<close>

fun migrate :: "string list \<Rightarrow> int dict \<Rightarrow> int dict" where
  "migrate [] new_cart = new_cart"
| "migrate (item # items) new_cart =
     migrate items (dict_set new_cart item (dict_get new_cart item 0 + 1))"

definition add_to_cart :: "string \<Rightarrow> session \<Rightarrow> db \<Rightarrow> result" where
  "add_to_cart product_name s d =
     (let c = (case s_cart s of
                 None \<Rightarrow> []
               | Some (CartList l) \<Rightarrow> migrate l []
               | Some (CartDict c) \<Rightarrow> c);
          c1 = dict_set c product_name (dict_get c product_name 0 + 1)
      in Inr (Redirect EP_product_page, s\<lparr>s_cart := Some (CartDict c1)\<rparr>, d))"

text \<open>
  On a list, \<open>product_name in cart\<close> is membership, and \<open>del cart[product_name]\<close> with a
  string index raises TypeError.
\<close>

definition remove_from_cart :: "string \<Rightarrow> session \<Rightarrow> db \<Rightarrow> result" where
  "remove_from_cart product_name s d =
     (case s_cart s of
        None \<Rightarrow> Inr (Redirect EP_cart, s\<lparr>s_cart := Some (CartDict [])\<rparr>, d)
      | Some (CartDict c) \<Rightarrow>
          Inr (Redirect EP_cart,
               s\<lparr>s_cart := Some (CartDict (if dict_contains c product_name
                                              then dict_del c product_name else c))\<rparr>, d)
      | Some (CartList l) \<Rightarrow>
          if product_name \<in> set l then Inl TypeError
          else Inr (Redirect EP_cart, s\<lparr>s_cart := Some (CartList l)\<rparr>, d))"

text \<open>
  The inner loop of \<open>cart\<close> over the rows of \<open>get_products()\<close>, and the outer loop over
  \<open>cart.items()\<close>; the accumulator is \<open>(cart_products, total)\<close>. A price stored as a
  number comes back as a float. One kept as text comes back as a \<open>str\<close>: \<open>qty * price\<close>
  is then a string, and adding it to \<open>total\<close> raises TypeError.
\<close>

fun scan_products ::
  "string \<Rightarrow> int \<Rightarrow> product list \<Rightarrow> line_item list \<times> real \<Rightarrow> error + (line_item list \<times> real)" where
  "scan_products name qty [] acc = Inr acc"
| "scan_products name qty (p # ps) (cart_products, tot) =
     (if p_name p = name then
        (case p_price p of
           SqlReal r \<Rightarrow>
             scan_products name qty ps
               (cart_products @
                  [\<lparr>li_product = p, li_qty = qty, li_subtotal = of_int qty * r\<rparr>],
                tot + of_int qty * r)
         | SqlText t \<Rightarrow> Inl TypeError)
      else scan_products name qty ps (cart_products, tot))"

fun cart_loop ::
  "int dict \<Rightarrow> db \<Rightarrow> line_item list \<times> real \<Rightarrow> error + ((line_item list \<times> real) \<times> db)" where
  "cart_loop [] d acc = Inr (acc, d)"
| "cart_loop ((name, qty) # items) d acc =
     (case scan_products name qty (fst (get_products d)) acc of
        Inl e \<Rightarrow> Inl e
      | Inr acc1 \<Rightarrow> cart_loop items (snd (get_products d)) acc1)"

definition cart :: "session \<Rightarrow> db \<Rightarrow> result" where
  "cart s d =
     (let (c, s1) =
            (case s_cart s of
               None \<Rightarrow> ([], s)
             | Some (CartList l) \<Rightarrow>
                 (migrate l [], s\<lparr>s_cart := Some (CartDict (migrate l []))\<rparr>)
             | Some (CartDict c) \<Rightarrow> (c, s))
      in (case cart_loop c d ([], 0) of
            Inl e \<Rightarrow> Inl e
          | Inr ((cart_products, tot), d1) \<Rightarrow> Inr (RenderCart cart_products tot, s1, d1)))"

section \<open>Admin routes\<close>

text \<open>
  A route under \<open>@admin_required\<close> is its body (named \<open>_body\<close> here) wrapped by
  \<open>admin_required\<close>. \<open>admin_update\<close> carries no decorator in app.py. Its
  \<open>cursor.fetchone()["image"]\<close> subscripts \<open>None\<close> when no row has the id, which raises
  TypeError.
\<close>

definition admin_body :: "session \<Rightarrow> db \<Rightarrow> result" where
  "admin_body s d = (let (ps, d1) = get_products d in Inr (RenderAdmin ps, s, d1))"

definition admin :: "session \<Rightarrow> db \<Rightarrow> result" where
  "admin = admin_required admin_body"

definition admin_add_body :: "form \<Rightarrow> session \<Rightarrow> db \<Rightarrow> result" where
  "admin_add_body f s d =
     (if \<not> verify_csrf s f
        then Inr (Redirect EP_admin, flash ''Invalid CSRF token'' ''danger'' s, d)
      else
        (let name = strip (form_get f ''name'' []);
             price = strip (form_get f ''price'' []);
             category = strip (form_get f ''category'' []);
             img = strip (form_get f ''image'' [])
         in (case validate_product_form name price category img of
               Some err \<Rightarrow> Inr (Redirect EP_admin, flash err ''error'' s, d)
             | None \<Rightarrow>
                 Inr (Redirect EP_admin,
                      flash ''Product added successfully!'' ''success'' s,
                      insert_product name (real_affinity price) category img (get_db d)))))"

definition admin_add :: "form \<Rightarrow> session \<Rightarrow> db \<Rightarrow> result" where
  "admin_add f = admin_required (admin_add_body f)"

definition admin_delete_body :: "nat \<Rightarrow> session \<Rightarrow> db \<Rightarrow> result" where
  "admin_delete_body product_id s d =
     Inr (Redirect EP_admin, flash ''Product deleted'' ''warning'' s,
          delete_product product_id (get_db d))"

definition admin_delete :: "nat \<Rightarrow> session \<Rightarrow> db \<Rightarrow> result" where
  "admin_delete product_id = admin_required (admin_delete_body product_id)"

definition admin_update :: "nat \<Rightarrow> form \<Rightarrow> session \<Rightarrow> db \<Rightarrow> result" where
  "admin_update product_id f s d =
     (if \<not> verify_csrf s f
        then Inr (Redirect EP_admin, flash ''Invalid CSRF token'' ''danger'' s, d)
      else
        (let name = strip (form_get f ''name'' []);
             price = strip (form_get f ''price'' []);
             category = strip (form_get f ''category'' []);
             img = strip (form_get f ''image'' [])
         in (case (if img \<noteq> [] then validate_product_form name price category img
                   else None) of
               Some err \<Rightarrow> Inr (Redirect EP_admin, flash err ''error'' s, d)
             | None \<Rightarrow>
                 (let d1 = get_db d
                  in (case (if img = [] then map_option p_image (select_by_id product_id d1)
                            else Some img) of
                        None \<Rightarrow> Inl TypeError
                      | Some img1 \<Rightarrow>
                          Inr (Redirect EP_admin,
                               flash ''Product updated successfully!'' ''info'' s,
                               update_product name (real_affinity price) category img1
                                 product_id d1))))))"

section \<open>Auth routes\<close>

definition admin_login ::
  "(string \<Rightarrow> string \<Rightarrow> bool) \<Rightarrow> http_method \<Rightarrow> form \<Rightarrow> session \<Rightarrow> db \<Rightarrow>
     response \<times> session \<times> db" where
  "admin_login check_password_hash m f s d =
     (if m = POST then
        (let uname = strip (form_get f ''username'' []);
             password = strip (form_get f ''password'' [])
         in if uname = [] \<or> password = []
              then (Redirect EP_admin_login,
                    flash ''Username and password are required'' ''danger'' s, d)
            else
              (let d1 = get_db d
               in (case select_user uname d1 of
                     None \<Rightarrow>
                       (Redirect EP_admin_login,
                        flash ''Invalid username or password'' ''danger'' s, d1)
                   | Some u \<Rightarrow>
                       if verify_password check_password_hash password (password_hash u)
                         then (Redirect EP_admin, s\<lparr>s_admin_logged_in := Some True\<rparr>, d1)
                       else (Redirect EP_admin_login,
                             flash ''Invalid username or password'' ''danger'' s, d1))))
      else (Render ''admin_login.html'', s, d))"

definition admin_logout :: "session \<Rightarrow> db \<Rightarrow> response \<times> session \<times> db" where
  "admin_logout s d = (Redirect EP_home, empty_session, d)"

section \<open>The specification's reading of the operations\<close>










text \<open>
  The cross-site request forgery check of the specification: the token of the form is
  missing, or is not the token of the session.
\<close>

definition csrf_missing_or_mismatched :: "session \<Rightarrow> form \<Rightarrow> bool" where
  "csrf_missing_or_mismatched s f =
     (f ''csrf_token'' = None \<or> f ''csrf_token'' \<noteq> s_csrf_token s)"

text \<open>The primary key: no two rows of \<open>products\<close> share an id.\<close>

definition unique_ids :: "db \<Rightarrow> bool" where
  "unique_ids d = distinct (map p_id (products d))"

text \<open>Requests and sessions used where a theorem is read at a concrete input.\<close>

definition product_form :: "string \<Rightarrow> string \<Rightarrow> string \<Rightarrow> string \<Rightarrow> string \<Rightarrow> form" where
  "product_form token name price category img =
     map_of [(''csrf_token'', token), (''name'', name), (''price'', price),
             (''category'', category), (''image'', img)]"

definition login_form :: "string \<Rightarrow> string \<Rightarrow> form" where
  "login_form uname password = map_of [(''username'', uname), (''password'', password)]"

definition admin_session :: "string \<Rightarrow> session" where
  "admin_session token =
     empty_session\<lparr>s_csrf_token := Some token, s_admin_logged_in := Some True\<rparr>"

definition visitor_session :: "string \<Rightarrow> session" where
  "visitor_session token = empty_session\<lparr>s_csrf_token := Some token\<rparr>"

definition sample_check :: "string \<Rightarrow> string \<Rightarrow> bool" where
  \<comment> \<open>a stand-in for \<open>check_password_hash\<close>: the hash of \<open>p\<close> is \<open>h:\<close> followed by \<open>p\<close>\<close>
  "sample_check pw_hash password = (pw_hash = ''h:'' @ password)"

definition sample_users :: db where
  "sample_users =
     empty_db\<lparr>users := [\<lparr>u_id = 1, username = ''realuser'', password_hash = ''h:secret''\<rparr>]\<rparr>"


section \<open>Dictionaries and the migration loop\<close>










section \<open>The loops of the cart view\<close>








section \<open>The seeded catalog\<close>

lemma seed_products_rows:
  "products (seed_products empty_db) =
     [\<lparr>p_id = 1, p_name = ''Football'', p_price = SqlReal 499,
        p_category = ''Outdoor'', p_image = ''football.jpeg''\<rparr>,
      \<lparr>p_id = 2, p_name = ''Cricket Bat'', p_price = SqlReal 1299,
        p_category = ''Outdoor'', p_image = ''cricket_bat.jpeg''\<rparr>,
      \<lparr>p_id = 3, p_name = ''Tennis Racket'', p_price = SqlReal 999,
        p_category = ''Indoor'', p_image = ''tennis_racket.jpeg''\<rparr>,
      \<lparr>p_id = 4, p_name = ''Dumbbells'', p_price = SqlReal 999,
        p_category = ''Fitness'', p_image = ''dumbbells.jpeg''\<rparr>,
      \<lparr>p_id = 5, p_name = ''Yoga Mat'', p_price = SqlReal 699,
        p_category = ''Fitness'', p_image = ''yoga_mat.jpeg''\<rparr>]"
  by (simp add: seed_products_def seed_rows_def insert_product_def next_id_def empty_db_def)







section \<open>Validation and the admin routes\<close>

lemma products_insert_product:
  "products (insert_product name v category img d) =
     products d @ [\<lparr>p_id = next_id d, p_name = name, p_price = v,
                    p_category = category, p_image = img\<rparr>]"
  by (simp add: insert_product_def)

lemma validate_product_form_cases:
  "validate_product_form name price category img =
     (if name = [] \<or> price = [] \<or> category = [] \<or> img = []
        then Some ''All fields are required.''
      else if py_float price = None then Some ''Price must be a number.''
      else if le_zero (the (py_float price)) then Some ''Price must be greater than zero.''
      else if endswith (lower img) [''.png'', ''.jpg'', ''.jpeg'', ''.webp''] then None
      else Some ''Invalid image format.'')"
  by (auto simp: validate_product_form_def image_extensions_def split: option.splits)

lemma admin_add_guarded:
  "s_admin_logged_in s = Some True \<Longrightarrow> verify_csrf s f \<Longrightarrow>
   admin_add f s d =
     (case validate_product_form (strip (form_get f ''name'' [])) (strip (form_get f ''price'' []))
             (strip (form_get f ''category'' [])) (strip (form_get f ''image'' [])) of
        Some err \<Rightarrow> Inr (Redirect EP_admin, flash err ''error'' s, d)
      | None \<Rightarrow>
          Inr (Redirect EP_admin, flash ''Product added successfully!'' ''success'' s,
               insert_product (strip (form_get f ''name'' []))
                 (real_affinity (strip (form_get f ''price'' [])))
                 (strip (form_get f ''category'' [])) (strip (form_get f ''image'' []))
                 (get_db d)))"
  by (simp add: admin_add_def admin_required_def admin_add_body_def Let_def)

lemma product_form_fields:
  "form_get (product_form token name price category img) ''name'' [] = name"
  "form_get (product_form token name price category img) ''price'' [] = price"
  "form_get (product_form token name price category img) ''category'' [] = category"
  "form_get (product_form token name price category img) ''image'' [] = img"
  "product_form token name price category img ''csrf_token'' = Some token"
  by (simp_all add: form_get_def product_form_def)

lemma verify_csrf_admin_session:
  "token \<noteq> [] \<Longrightarrow>
   verify_csrf (admin_session token) (product_form token name price category img)"
  by (simp add: verify_csrf_def admin_session_def product_form_fields)

lemma strip_plain:
  "strip ''Ball'' = ''Ball''" "strip ''Outdoor'' = ''Outdoor''" "strip ''0'' = ''0''"
  "strip ''abc'' = ''abc''" "strip ''10'' = ''10''" "strip ''b.png'' = ''b.png''"
  "strip ''b.gif'' = ''b.gif''" "strip '' B.PNG '' = ''B.PNG''" "strip ''   '' = []"
  by code_simp+

lemma py_float_examples:
  "py_float ''0'' = Some (Finite 0)" "py_float ''abc'' = None"
  "py_float ''10'' = Some (Finite 10)"
  by code_simp+

lemma le_zero_examples: "le_zero (Finite 0)" "\<not> le_zero (Finite 10)"
  by simp_all

lemma extension_examples:
  "endswith (lower ''b.png'') [''.png'', ''.jpg'', ''.jpeg'', ''.webp'']"
  "endswith (lower ''B.PNG'') [''.png'', ''.jpg'', ''.jpeg'', ''.webp'']"
  "\<not> endswith (lower ''b.gif'') [''.png'', ''.jpg'', ''.jpeg'', ''.webp'']"
  by code_simp+

lemma real_affinity_examples:
  "real_affinity ''10'' = SqlReal 10"
  by code_simp




section \<open>The cart\<close>







text \<open>
  C6. The cart operations never fail, whatever the session holds under \<open>cart\<close>. This
  fails for \<open>remove_from_cart\<close> on the legacy list: the route does not run the migration
  that \<open>add_to_cart\<close> and \<open>cart\<close> run, finds the name in the list and raises TypeError
  at \<open>del cart[product_name]\<close>.
\<close>

theorem remove_from_cart_legacy_list_raises:
  "remove_from_cart ''Football''
     (empty_session\<lparr>s_cart := Some (CartList [''Football'', ''Football'', ''Yoga Mat''])\<rparr>)
     empty_db = Inl TypeError"
  by (simp add: remove_from_cart_def)

section \<open>Adding a product\<close>

text \<open>
  C3. Validation of \<open>addProduct\<close>. For a request that has passed the admin guard and the
  CSRF check, with the fields as the handler strips them: a missing field fails with
  "All fields are required."; otherwise a price that \<open>float\<close> rejects fails with "Price
  must be a number."; otherwise a price \<open><= 0\<close> fails with "Price must be greater than
  zero."; otherwise an image whose lower-cased name ends in none of .png, .jpg, .jpeg,
  .webp fails with "Invalid image format."; each failure flashes its message, redirects
  to the admin listing and leaves the store as it was. Otherwise one row with the four
  fields is appended under a fresh id. A request changes the table only if every check
  has passed.
\<close>

theorem admin_add_validation:
  assumes auth: "s_admin_logged_in s = Some True"
    and csrf: "verify_csrf s f"
    and name: "name = strip (form_get f ''name'' [])"
    and price: "price = strip (form_get f ''price'' [])"
    and category: "category = strip (form_get f ''category'' [])"
    and img: "img = strip (form_get f ''image'' [])"
  shows
    "(name = [] \<or> price = [] \<or> category = [] \<or> img = [] \<longrightarrow>
        admin_add f s d =
          Inr (Redirect EP_admin, flash ''All fields are required.'' ''error'' s, d))
     \<and> (name \<noteq> [] \<and> price \<noteq> [] \<and> category \<noteq> [] \<and> img \<noteq> [] \<and>
          py_float price = None \<longrightarrow>
        admin_add f s d =
          Inr (Redirect EP_admin, flash ''Price must be a number.'' ''error'' s, d))
     \<and> (name \<noteq> [] \<and> price \<noteq> [] \<and> category \<noteq> [] \<and> img \<noteq> [] \<and>
          py_float price = Some v \<and> le_zero v \<longrightarrow>
        admin_add f s d =
          Inr (Redirect EP_admin, flash ''Price must be greater than zero.'' ''error'' s, d))
     \<and> (name \<noteq> [] \<and> price \<noteq> [] \<and> category \<noteq> [] \<and> img \<noteq> [] \<and>
          py_float price = Some v \<and> \<not> le_zero v \<and>
          \<not> endswith (lower img) [''.png'', ''.jpg'', ''.jpeg'', ''.webp''] \<longrightarrow>
        admin_add f s d =
          Inr (Redirect EP_admin, flash ''Invalid image format.'' ''error'' s, d))
     \<and> (name \<noteq> [] \<and> price \<noteq> [] \<and> category \<noteq> [] \<and> img \<noteq> [] \<and>
          py_float price = Some v \<and> \<not> le_zero v \<and>
          endswith (lower img) [''.png'', ''.jpg'', ''.jpeg'', ''.webp''] \<longrightarrow>
        admin_add f s d =
          Inr (Redirect EP_admin, flash ''Product added successfully!'' ''success'' s,
               insert_product name (real_affinity price) category img (get_db d))
        \<and> products (insert_product name (real_affinity price) category img (get_db d)) =
            products d @
              [\<lparr>p_id = next_id d, p_name = name, p_price = real_affinity price,
                p_category = category, p_image = img\<rparr>])
     \<and> (admin_add f s d = Inr (r, s', d') \<and> products d' \<noteq> products d \<longrightarrow>
          name \<noteq> [] \<and> price \<noteq> [] \<and> category \<noteq> [] \<and> img \<noteq> [] \<and>
          (\<exists>w. py_float price = Some w \<and> \<not> le_zero w) \<and>
          endswith (lower img) [''.png'', ''.jpg'', ''.jpeg'', ''.webp''])"
proof -
  note run = admin_add_guarded [OF auth csrf, of d, folded name price category img]
  have next_id: "next_id (get_db d) = next_id d"
    by (simp add: next_id_def get_db_def)
  have rows: "products (get_db d) = products d"
    by (simp add: get_db_def)
  have c1: "name = [] \<or> price = [] \<or> category = [] \<or> img = [] \<longrightarrow>
        admin_add f s d =
          Inr (Redirect EP_admin, flash ''All fields are required.'' ''error'' s, d)"
    by (auto simp: run validate_product_form_cases)
  have c2: "name \<noteq> [] \<and> price \<noteq> [] \<and> category \<noteq> [] \<and> img \<noteq> [] \<and>
          py_float price = None \<longrightarrow>
        admin_add f s d =
          Inr (Redirect EP_admin, flash ''Price must be a number.'' ''error'' s, d)"
    by (simp add: run validate_product_form_cases)
  have c3: "name \<noteq> [] \<and> price \<noteq> [] \<and> category \<noteq> [] \<and> img \<noteq> [] \<and>
          py_float price = Some v \<and> le_zero v \<longrightarrow>
        admin_add f s d =
          Inr (Redirect EP_admin, flash ''Price must be greater than zero.'' ''error'' s, d)"
    by (simp add: run validate_product_form_cases)
  have c4: "name \<noteq> [] \<and> price \<noteq> [] \<and> category \<noteq> [] \<and> img \<noteq> [] \<and>
          py_float price = Some v \<and> \<not> le_zero v \<and>
          \<not> endswith (lower img) [''.png'', ''.jpg'', ''.jpeg'', ''.webp''] \<longrightarrow>
        admin_add f s d =
          Inr (Redirect EP_admin, flash ''Invalid image format.'' ''error'' s, d)"
    by (simp add: run validate_product_form_cases)
  have c5: "name \<noteq> [] \<and> price \<noteq> [] \<and> category \<noteq> [] \<and> img \<noteq> [] \<and>
          py_float price = Some v \<and> \<not> le_zero v \<and>
          endswith (lower img) [''.png'', ''.jpg'', ''.jpeg'', ''.webp''] \<longrightarrow>
        admin_add f s d =
          Inr (Redirect EP_admin, flash ''Product added successfully!'' ''success'' s,
               insert_product name (real_affinity price) category img (get_db d))
        \<and> products (insert_product name (real_affinity price) category img (get_db d)) =
            products d @
              [\<lparr>p_id = next_id d, p_name = name, p_price = real_affinity price,
                p_category = category, p_image = img\<rparr>]"
    by (simp add: run validate_product_form_cases products_insert_product next_id rows)
  have c6: "admin_add f s d = Inr (r, s', d') \<and> products d' \<noteq> products d \<longrightarrow>
          name \<noteq> [] \<and> price \<noteq> [] \<and> category \<noteq> [] \<and> img \<noteq> [] \<and>
          (\<exists>w. py_float price = Some w \<and> \<not> le_zero w) \<and>
          endswith (lower img) [''.png'', ''.jpg'', ''.jpeg'', ''.webp'']"
    by (auto simp: run validate_product_form_cases split: if_splits)
  show ?thesis
    by (intro conjI) (rule c1 c2 c3 c4 c5 c6)+
qed

text \<open>
  The theorem at the requests of the specification's validation boundary: the prices
  \<open>0\<close> and \<open>abc\<close>, the image \<open>b.gif\<close>, a blank category, and a valid request whose
  image is written in capitals.
\<close>

theorem admin_add_validation_witness:
  "admin_add (product_form ''tok'' ''Ball'' ''0'' ''Outdoor'' ''b.png'')
       (admin_session ''tok'') empty_db =
     Inr (Redirect EP_admin,
          flash ''Price must be greater than zero.'' ''error'' (admin_session ''tok''),
          empty_db)
   \<and> admin_add (product_form ''tok'' ''Ball'' ''abc'' ''Outdoor'' ''b.png'')
       (admin_session ''tok'') empty_db =
     Inr (Redirect EP_admin,
          flash ''Price must be a number.'' ''error'' (admin_session ''tok''), empty_db)
   \<and> admin_add (product_form ''tok'' ''Ball'' ''10'' ''Outdoor'' ''b.gif'')
       (admin_session ''tok'') empty_db =
     Inr (Redirect EP_admin,
          flash ''Invalid image format.'' ''error'' (admin_session ''tok''), empty_db)
   \<and> admin_add (product_form ''tok'' ''Ball'' ''10'' ''   '' ''b.png'')
       (admin_session ''tok'') empty_db =
     Inr (Redirect EP_admin,
          flash ''All fields are required.'' ''error'' (admin_session ''tok''), empty_db)
   \<and> admin_add (product_form ''tok'' ''Ball'' ''10'' ''Outdoor'' '' B.PNG '')
       (admin_session ''tok'') empty_db =
     Inr (Redirect EP_admin,
          flash ''Product added successfully!'' ''success'' (admin_session ''tok''),
          insert_product ''Ball'' (SqlReal 10) ''Outdoor'' ''B.PNG'' (get_db empty_db))
   \<and> products (insert_product ''Ball'' (SqlReal 10) ''Outdoor'' ''B.PNG'' (get_db empty_db)) =
       [\<lparr>p_id = 1, p_name = ''Ball'', p_price = SqlReal 10,
         p_category = ''Outdoor'', p_image = ''B.PNG''\<rparr>]"
proof -
  have auth: "s_admin_logged_in (admin_session ''tok'') = Some True"
    by (simp add: admin_session_def)
  have csrf: "verify_csrf (admin_session ''tok'') (product_form ''tok'' n p c i)" for n p c i
    by (rule verify_csrf_admin_session) simp
  have fields:
    "''Ball'' = strip (form_get (product_form ''tok'' ''Ball'' p c i) ''name'' [])"
    "''0'' = strip (form_get (product_form ''tok'' n ''0'' c i) ''price'' [])"
    "''abc'' = strip (form_get (product_form ''tok'' n ''abc'' c i) ''price'' [])"
    "''10'' = strip (form_get (product_form ''tok'' n ''10'' c i) ''price'' [])"
    "''Outdoor'' = strip (form_get (product_form ''tok'' n p ''Outdoor'' i) ''category'' [])"
    "[] = strip (form_get (product_form ''tok'' n p ''   '' i) ''category'' [])"
    "''b.png'' = strip (form_get (product_form ''tok'' n p c ''b.png'') ''image'' [])"
    "''b.gif'' = strip (form_get (product_form ''tok'' n p c ''b.gif'') ''image'' [])"
    "''B.PNG'' = strip (form_get (product_form ''tok'' n p c '' B.PNG '') ''image'' [])"
    for n p c i
    by (simp_all only: product_form_fields strip_plain)
  have zero: "admin_add (product_form ''tok'' ''Ball'' ''0'' ''Outdoor'' ''b.png'')
       (admin_session ''tok'') empty_db =
     Inr (Redirect EP_admin,
          flash ''Price must be greater than zero.'' ''error'' (admin_session ''tok''),
          empty_db)"
    using admin_add_validation
      [OF auth csrf fields(1) fields(2) fields(5) fields(7), where v = "Finite 0" and d = empty_db]
      py_float_examples le_zero_examples
    by simp
  have abc: "admin_add (product_form ''tok'' ''Ball'' ''abc'' ''Outdoor'' ''b.png'')
       (admin_session ''tok'') empty_db =
     Inr (Redirect EP_admin,
          flash ''Price must be a number.'' ''error'' (admin_session ''tok''), empty_db)"
    using admin_add_validation
      [OF auth csrf fields(1) fields(3) fields(5) fields(7), where d = empty_db]
      py_float_examples
    by simp
  have gif: "admin_add (product_form ''tok'' ''Ball'' ''10'' ''Outdoor'' ''b.gif'')
       (admin_session ''tok'') empty_db =
     Inr (Redirect EP_admin,
          flash ''Invalid image format.'' ''error'' (admin_session ''tok''), empty_db)"
    using admin_add_validation
      [OF auth csrf fields(1) fields(4) fields(5) fields(8), where v = "Finite 10" and d = empty_db]
      py_float_examples le_zero_examples extension_examples
    by simp
  have missing: "admin_add (product_form ''tok'' ''Ball'' ''10'' ''   '' ''b.png'')
       (admin_session ''tok'') empty_db =
     Inr (Redirect EP_admin,
          flash ''All fields are required.'' ''error'' (admin_session ''tok''), empty_db)"
    using admin_add_validation
      [OF auth csrf fields(1) fields(4) fields(6) fields(7), where d = empty_db]
    by simp
  have ok: "admin_add (product_form ''tok'' ''Ball'' ''10'' ''Outdoor'' '' B.PNG '')
       (admin_session ''tok'') empty_db =
     Inr (Redirect EP_admin,
          flash ''Product added successfully!'' ''success'' (admin_session ''tok''),
          insert_product ''Ball'' (SqlReal 10) ''Outdoor'' ''B.PNG'' (get_db empty_db))"
    using admin_add_validation
      [OF auth csrf fields(1) fields(4) fields(5) fields(9), where v = "Finite 10" and d = empty_db]
      py_float_examples le_zero_examples extension_examples real_affinity_examples
    by simp
  have row: "products (insert_product ''Ball'' (SqlReal 10) ''Outdoor'' ''B.PNG''
        (get_db empty_db)) =
       [\<lparr>p_id = 1, p_name = ''Ball'', p_price = SqlReal 10,
         p_category = ''Outdoor'', p_image = ''B.PNG''\<rparr>]"
    by (simp add: insert_product_def get_db_def empty_db_def next_id_def)
  show ?thesis
    by (intro conjI) (rule zero abc gif missing ok row)+
qed

section \<open>The admin guard and the CSRF check\<close>

lemma csrf_missing_or_mismatched_fails:
  "csrf_missing_or_mismatched s f \<Longrightarrow> \<not> verify_csrf s f"
  by (auto simp: csrf_missing_or_mismatched_def verify_csrf_def split: option.splits)

lemma admin_add_unauthenticated:
  "s_admin_logged_in s \<noteq> Some True \<Longrightarrow>
   admin_add f s d = Inr (Redirect EP_admin_login, s, d)"
  by (simp add: admin_add_def admin_required_def)

lemma admin_delete_unauthenticated:
  "s_admin_logged_in s \<noteq> Some True \<Longrightarrow>
   admin_delete product_id s d = Inr (Redirect EP_admin_login, s, d)"
  by (simp add: admin_delete_def admin_required_def)

lemma admin_add_bad_csrf:
  "s_admin_logged_in s = Some True \<Longrightarrow> \<not> verify_csrf s f \<Longrightarrow>
   admin_add f s d = Inr (Redirect EP_admin, flash ''Invalid CSRF token'' ''danger'' s, d)"
  by (simp add: admin_add_def admin_required_def admin_add_body_def)

lemma admin_update_bad_csrf:
  "\<not> verify_csrf s f \<Longrightarrow>
   admin_update product_id f s d =
     Inr (Redirect EP_admin, flash ''Invalid CSRF token'' ''danger'' s, d)"
  by (simp add: admin_update_def)

text \<open>
  C2, as amended. A POST whose CSRF token is missing or is not the token of the session
  is rejected before any validation and before the store is opened: \<open>admin_update\<close>
  always, and \<open>admin_add\<close> from a session with the admin flag, redirect to the admin
  listing with the message "Invalid CSRF token" and leave the store as it was. From a
  session without the admin flag \<open>admin_add\<close> redirects to the login page instead, with
  no message, the store again as it was: the admin guard runs before the CSRF check.
\<close>

theorem csrf_rejection:
  "(csrf_missing_or_mismatched s f \<and> s_admin_logged_in s = Some True \<longrightarrow>
      admin_add f s d =
        Inr (Redirect EP_admin, flash ''Invalid CSRF token'' ''danger'' s, d))
   \<and> (csrf_missing_or_mismatched s f \<longrightarrow>
      admin_update product_id f s d =
        Inr (Redirect EP_admin, flash ''Invalid CSRF token'' ''danger'' s, d))
   \<and> (csrf_missing_or_mismatched s f \<and> s_admin_logged_in s \<noteq> Some True \<longrightarrow>
      admin_add f s d = Inr (Redirect EP_admin_login, s, d))"
  using csrf_missing_or_mismatched_fails [of s f]
  by (auto simp: admin_add_bad_csrf admin_update_bad_csrf admin_add_unauthenticated)

text \<open>
  The theorem at a mismatched token from an admin session (\<open>admin_add\<close>), and at a request
  with no token from a session without the admin flag (\<open>admin_update\<close>, \<open>admin_add\<close>).
\<close>

theorem csrf_rejection_witness:
  "csrf_missing_or_mismatched (admin_session ''tok'')
     (product_form ''bad'' ''Ball'' ''10'' ''Outdoor'' ''b.png'')
   \<and> admin_add (product_form ''bad'' ''Ball'' ''10'' ''Outdoor'' ''b.png'')
       (admin_session ''tok'') (seed_products empty_db) =
     Inr (Redirect EP_admin,
          flash ''Invalid CSRF token'' ''danger'' (admin_session ''tok''),
          seed_products empty_db)
   \<and> csrf_missing_or_mismatched (visitor_session ''tok'') Map.empty
   \<and> admin_update 1 Map.empty (visitor_session ''tok'') (seed_products empty_db) =
     Inr (Redirect EP_admin,
          flash ''Invalid CSRF token'' ''danger'' (visitor_session ''tok''),
          seed_products empty_db)
   \<and> admin_add Map.empty (visitor_session ''tok'') (seed_products empty_db) =
     Inr (Redirect EP_admin_login, visitor_session ''tok'', seed_products empty_db)"
proof -
  have m1: "csrf_missing_or_mismatched (admin_session ''tok'')
     (product_form ''bad'' ''Ball'' ''10'' ''Outdoor'' ''b.png'')"
    by (simp add: csrf_missing_or_mismatched_def product_form_fields admin_session_def)
  have a1: "s_admin_logged_in (admin_session ''tok'') = Some True"
    by (simp add: admin_session_def)
  have m2: "csrf_missing_or_mismatched (visitor_session ''tok'') Map.empty"
    by (simp add: csrf_missing_or_mismatched_def)
  have a2: "s_admin_logged_in (visitor_session ''tok'') \<noteq> Some True"
    by (simp add: visitor_session_def empty_session_def)
  from csrf_rejection
    [of "admin_session ''tok''" "product_form ''bad'' ''Ball'' ''10'' ''Outdoor'' ''b.png''"
        "seed_products empty_db" 1]
    m1 a1
  have r1: "admin_add (product_form ''bad'' ''Ball'' ''10'' ''Outdoor'' ''b.png'')
       (admin_session ''tok'') (seed_products empty_db) =
     Inr (Redirect EP_admin,
          flash ''Invalid CSRF token'' ''danger'' (admin_session ''tok''),
          seed_products empty_db)"
    by blast
  from csrf_rejection [of "visitor_session ''tok''" Map.empty "seed_products empty_db" 1]
    m2 a2
  have r2: "admin_update 1 Map.empty (visitor_session ''tok'') (seed_products empty_db) =
     Inr (Redirect EP_admin,
          flash ''Invalid CSRF token'' ''danger'' (visitor_session ''tok''),
          seed_products empty_db)"
    and r3: "admin_add Map.empty (visitor_session ''tok'') (seed_products empty_db) =
     Inr (Redirect EP_admin_login, visitor_session ''tok'', seed_products empty_db)"
    by blast+
  show ?thesis
    by (intro conjI) (rule m1 r1 m2 r2 r3)+
qed

text \<open>
  C2 as stated fails: a POST to \<open>admin_add\<close> with no token, from a session without the
  admin flag, is redirected to the login page with no message, not to the admin listing
  with the message "Invalid CSRF token".
\<close>

theorem csrf_rejection_counterexample:
  "csrf_missing_or_mismatched (visitor_session ''tok'') Map.empty
   \<and> admin_add Map.empty (visitor_session ''tok'') (seed_products empty_db) =
       Inr (Redirect EP_admin_login, visitor_session ''tok'', seed_products empty_db)
   \<and> admin_add Map.empty (visitor_session ''tok'') (seed_products empty_db) \<noteq>
       Inr (Redirect EP_admin,
            flash ''Invalid CSRF token'' ''danger'' (visitor_session ''tok''),
            seed_products empty_db)"
proof -
  have m: "csrf_missing_or_mismatched (visitor_session ''tok'') Map.empty"
    by (simp add: csrf_missing_or_mismatched_def)
  have a: "s_admin_logged_in (visitor_session ''tok'') \<noteq> Some True"
    by (simp add: visitor_session_def empty_session_def)
  have r: "admin_add Map.empty (visitor_session ''tok'') (seed_products empty_db) =
       Inr (Redirect EP_admin_login, visitor_session ''tok'', seed_products empty_db)"
    by (rule admin_add_unauthenticated [OF a])
  show ?thesis
    unfolding r using m by simp
qed

section \<open>Login\<close>

lemma select_user_get_db: "select_user uname (get_db d) = select_user uname d"
  by (simp add: select_user_def get_db_def)

lemma admin_login_blank:
  "strip (form_get f ''username'' []) = [] \<or> strip (form_get f ''password'' []) = [] \<Longrightarrow>
   admin_login check POST f s d =
     (Redirect EP_admin_login, flash ''Username and password are required'' ''danger'' s, d)"
  by (auto simp: admin_login_def Let_def)

lemma admin_login_no_user:
  "strip (form_get f ''username'' []) \<noteq> [] \<Longrightarrow> strip (form_get f ''password'' []) \<noteq> [] \<Longrightarrow>
   select_user (strip (form_get f ''username'' [])) d = None \<Longrightarrow>
   admin_login check POST f s d =
     (Redirect EP_admin_login, flash ''Invalid username or password'' ''danger'' s, get_db d)"
  by (simp add: admin_login_def Let_def select_user_get_db)

lemma admin_login_wrong_password:
  "strip (form_get f ''username'' []) \<noteq> [] \<Longrightarrow> strip (form_get f ''password'' []) \<noteq> [] \<Longrightarrow>
   select_user (strip (form_get f ''username'' [])) d = Some u \<Longrightarrow>
   \<not> verify_password check (strip (form_get f ''password'' [])) (password_hash u) \<Longrightarrow>
   admin_login check POST f s d =
     (Redirect EP_admin_login, flash ''Invalid username or password'' ''danger'' s, get_db d)"
  by (simp add: admin_login_def Let_def select_user_get_db)

lemma login_form_fields:
  "form_get (login_form uname password) ''username'' [] = uname"
  "form_get (login_form uname password) ''password'' [] = password"
  by (simp_all add: form_get_def login_form_def)

lemma strip_login:
  "strip ''realuser'' = ''realuser''" "strip ''wrongpass'' = ''wrongpass''"
  "strip ''nouser'' = ''nouser''" "strip ''x'' = ''x''" "strip [] = []"
  by code_simp+

lemma sample_users_lookup:
  "select_user ''realuser'' sample_users =
     Some \<lparr>u_id = 1, username = ''realuser'', password_hash = ''h:secret''\<rparr>"
  "select_user ''nouser'' sample_users = None"
  by (simp_all add: select_user_def sample_users_def)

lemma sample_check_wrongpass:
  "\<not> verify_password sample_check ''wrongpass'' ''h:secret''"
  by (simp add: verify_password_def sample_check_def)

text \<open>
  C9, as amended. Two failing login attempts whose username and password are not blank
  (after stripping), one for a username that exists with a password that does not verify
  and one for a username that does not exist, have the same outcome: the redirect to the
  login page, the message "Invalid username or password", the same session and the same
  store. An attempt with a blank username or password is answered with "Username and
  password are required" before the store is read, whether or not the username exists.
\<close>

theorem login_failures_indistinguishable:
  "(strip (form_get f1 ''username'' []) \<noteq> [] \<and> strip (form_get f1 ''password'' []) \<noteq> [] \<and>
    strip (form_get f2 ''username'' []) \<noteq> [] \<and> strip (form_get f2 ''password'' []) \<noteq> [] \<and>
    select_user (strip (form_get f1 ''username'' [])) d = Some u \<and>
    \<not> verify_password check (strip (form_get f1 ''password'' [])) (password_hash u) \<and>
    select_user (strip (form_get f2 ''username'' [])) d = None \<longrightarrow>
      admin_login check POST f1 s d = admin_login check POST f2 s d \<and>
      admin_login check POST f2 s d =
        (Redirect EP_admin_login, flash ''Invalid username or password'' ''danger'' s,
         get_db d))
   \<and> (strip (form_get f ''username'' []) = [] \<or> strip (form_get f ''password'' []) = [] \<longrightarrow>
      admin_login check POST f s d =
        (Redirect EP_admin_login, flash ''Username and password are required'' ''danger'' s,
         d))"
  by (auto simp: admin_login_blank admin_login_no_user admin_login_wrong_password)

text \<open>
  The theorem at the pair of the specification: \<open>realuser\<close> with a wrong password and
  \<open>nouser\<close>.
\<close>

theorem login_failures_indistinguishable_witness:
  "select_user ''realuser'' sample_users =
     Some \<lparr>u_id = 1, username = ''realuser'', password_hash = ''h:secret''\<rparr>
   \<and> select_user ''nouser'' sample_users = None
   \<and> admin_login sample_check POST (login_form ''realuser'' ''wrongpass'') empty_session
       sample_users =
     admin_login sample_check POST (login_form ''nouser'' ''x'') empty_session sample_users
   \<and> admin_login sample_check POST (login_form ''nouser'' ''x'') empty_session sample_users =
     (Redirect EP_admin_login,
      flash ''Invalid username or password'' ''danger'' empty_session, get_db sample_users)"
proof -
  have pre:
    "strip (form_get (login_form ''realuser'' ''wrongpass'') ''username'' []) \<noteq> []"
    "strip (form_get (login_form ''realuser'' ''wrongpass'') ''password'' []) \<noteq> []"
    "strip (form_get (login_form ''nouser'' ''x'') ''username'' []) \<noteq> []"
    "strip (form_get (login_form ''nouser'' ''x'') ''password'' []) \<noteq> []"
    "select_user (strip (form_get (login_form ''realuser'' ''wrongpass'') ''username'' []))
       sample_users =
     Some \<lparr>u_id = 1, username = ''realuser'', password_hash = ''h:secret''\<rparr>"
    "\<not> verify_password sample_check
        (strip (form_get (login_form ''realuser'' ''wrongpass'') ''password'' []))
        (password_hash \<lparr>u_id = 1, username = ''realuser'', password_hash = ''h:secret''\<rparr>)"
    "select_user (strip (form_get (login_form ''nouser'' ''x'') ''username'' []))
       sample_users = None"
    unfolding login_form_fields strip_login
    by (simp_all add: sample_users_lookup sample_check_wrongpass)
  from login_failures_indistinguishable
    [of "login_form ''realuser'' ''wrongpass''" "login_form ''nouser'' ''x''" sample_users
        "\<lparr>u_id = 1, username = ''realuser'', password_hash = ''h:secret''\<rparr>" sample_check
        empty_session]
    pre
  have "admin_login sample_check POST (login_form ''realuser'' ''wrongpass'') empty_session
       sample_users =
     admin_login sample_check POST (login_form ''nouser'' ''x'') empty_session sample_users
   \<and> admin_login sample_check POST (login_form ''nouser'' ''x'') empty_session sample_users =
     (Redirect EP_admin_login,
      flash ''Invalid username or password'' ''danger'' empty_session, get_db sample_users)"
    by blast
  with sample_users_lookup show ?thesis by blast
qed

text \<open>
  C9 as stated fails: the failing attempt for the unknown \<open>nouser\<close> with a blank
  password is answered with "Username and password are required", the failing attempt
  for \<open>realuser\<close> with a wrong password with "Invalid username or password".
\<close>

theorem login_failures_counterexample:
  "select_user ''realuser'' sample_users =
     Some \<lparr>u_id = 1, username = ''realuser'', password_hash = ''h:secret''\<rparr>
   \<and> \<not> verify_password sample_check ''wrongpass'' ''h:secret''
   \<and> select_user ''nouser'' sample_users = None
   \<and> admin_login sample_check POST (login_form ''realuser'' ''wrongpass'') empty_session
       sample_users =
     (Redirect EP_admin_login,
      flash ''Invalid username or password'' ''danger'' empty_session, get_db sample_users)
   \<and> admin_login sample_check POST (login_form ''nouser'' []) empty_session sample_users =
     (Redirect EP_admin_login,
      flash ''Username and password are required'' ''danger'' empty_session, sample_users)
   \<and> admin_login sample_check POST (login_form ''realuser'' ''wrongpass'') empty_session
       sample_users \<noteq>
     admin_login sample_check POST (login_form ''nouser'' []) empty_session sample_users"
proof -
  have a: "admin_login sample_check POST (login_form ''realuser'' ''wrongpass'') empty_session
       sample_users =
     (Redirect EP_admin_login,
      flash ''Invalid username or password'' ''danger'' empty_session, get_db sample_users)"
    by (rule admin_login_wrong_password
        [where u = "\<lparr>u_id = 1, username = ''realuser'', password_hash = ''h:secret''\<rparr>"];
        simp add: login_form_fields strip_login sample_users_lookup sample_check_wrongpass)
  have b: "admin_login sample_check POST (login_form ''nouser'' []) empty_session sample_users =
     (Redirect EP_admin_login,
      flash ''Username and password are required'' ''danger'' empty_session, sample_users)"
    by (rule admin_login_blank) (simp add: login_form_fields strip_login)
  have ne: "admin_login sample_check POST (login_form ''realuser'' ''wrongpass'') empty_session
       sample_users \<noteq>
     admin_login sample_check POST (login_form ''nouser'' []) empty_session sample_users"
    unfolding a b by (simp add: get_db_def sample_users_def empty_db_def)
  show ?thesis
    by (intro conjI) (rule sample_users_lookup sample_check_wrongpass a b ne)+
qed

section \<open>Updating a product\<close>

lemma admin_update_checked:
  "verify_csrf s f \<Longrightarrow>
   admin_update i f s d =
     (case (if strip (form_get f ''image'' []) \<noteq> []
            then validate_product_form (strip (form_get f ''name'' []))
                   (strip (form_get f ''price'' [])) (strip (form_get f ''category'' []))
                   (strip (form_get f ''image'' []))
            else None) of
        Some err \<Rightarrow> Inr (Redirect EP_admin, flash err ''error'' s, d)
      | None \<Rightarrow>
          (case (if strip (form_get f ''image'' []) = []
                 then map_option p_image (select_by_id i (get_db d))
                 else Some (strip (form_get f ''image'' []))) of
             None \<Rightarrow> Inl TypeError
           | Some img1 \<Rightarrow>
               Inr (Redirect EP_admin, flash ''Product updated successfully!'' ''info'' s,
                    update_product (strip (form_get f ''name'' []))
                      (real_affinity (strip (form_get f ''price'' [])))
                      (strip (form_get f ''category'' [])) img1 i (get_db d))))"
  by (simp add: admin_update_def Let_def split: option.splits)

lemma select_by_id_get_db: "select_by_id i (get_db d) = select_by_id i d"
  by (simp add: select_by_id_def get_db_def)

lemma products_update_product:
  "products (update_product name v category img i d) =
     map (\<lambda>p. if p_id p = i
               then p\<lparr>p_name := name, p_price := v, p_category := category, p_image := img\<rparr>
               else p) (products d)"
  by (simp add: update_product_def)

lemma find_Some_mem: "find P xs = Some x \<Longrightarrow> x \<in> set xs \<and> P x"
  by (induction xs) (auto split: if_splits)

lemma unique_row:
  assumes "unique_ids d" and "select_by_id i d = Some old"
    and "p \<in> set (products d)" and "p_id p = i"
  shows "p = old"
proof -
  from assms(2) have "old \<in> set (products d)" and "p_id old = i"
    using find_Some_mem [of "\<lambda>p. p_id p = i" "products d" old]
    by (simp_all add: select_by_id_def)
  moreover from assms(1) have "inj_on p_id (set (products d))"
    by (simp add: unique_ids_def distinct_map)
  ultimately show ?thesis
    using assms(3,4) by (auto dest: inj_onD)
qed

lemma update_keeps_image:
  assumes "unique_ids d" and "select_by_id i d = Some old"
  shows "products (update_product name v category (p_image old) i (get_db d)) =
     map (\<lambda>p. if p_id p = i
               then p\<lparr>p_name := name, p_price := v, p_category := category\<rparr>
               else p) (products d)"
proof -
  have "(if p_id p = i
         then p\<lparr>p_name := name, p_price := v, p_category := category,
                p_image := p_image old\<rparr>
         else p) =
        (if p_id p = i then p\<lparr>p_name := name, p_price := v, p_category := category\<rparr>
         else p)" if "p \<in> set (products d)" for p
    using unique_row [OF assms that] by (cases "p_id p = i") simp_all
  then show ?thesis
    by (simp add: products_update_product get_db_def cong: map_cong)
qed

lemma find_map_update:
  "find (\<lambda>p. p_id p = i) ps = Some old \<Longrightarrow>
   find (\<lambda>p. p_id p = i)
     (map (\<lambda>p. if p_id p = i then g p else p) ps) = Some (g old)"
  if "\<And>p. p_id (g p) = p_id p"
  using that by (induction ps) (auto split: if_splits)

lemma select_after_update:
  assumes "unique_ids d" and "select_by_id i d = Some old"
  shows "select_by_id i (update_product name v category (p_image old) i (get_db d)) =
     Some (old\<lparr>p_name := name, p_price := v, p_category := category\<rparr>)"
proof -
  have "find (\<lambda>p. p_id p = i)
      (map (\<lambda>p. if p_id p = i
                then p\<lparr>p_name := name, p_price := v, p_category := category\<rparr>
                else p) (products d)) =
      Some (old\<lparr>p_name := name, p_price := v, p_category := category\<rparr>)"
    using assms(2)
    by (intro find_map_update
        [where g = "\<lambda>p. p\<lparr>p_name := name, p_price := v, p_category := category\<rparr>"])
       (simp_all add: select_by_id_def)
  then show ?thesis
    by (simp add: select_by_id_def update_keeps_image [OF assms])
qed

lemma verify_csrf_visitor_session:
  "token \<noteq> [] \<Longrightarrow>
   verify_csrf (visitor_session token) (product_form token name price category img)"
  by (simp add: verify_csrf_def visitor_session_def product_form_fields)

lemma validate_examples:
  "validate_product_form ''Ball'' ''0'' ''Outdoor'' ''b.png'' =
     Some ''Price must be greater than zero.''"
  "validate_product_form ''Ball'' ''10'' ''Outdoor'' ''b.png'' = None"
  by (simp_all add: validate_product_form_cases py_float_examples le_zero_examples
      extension_examples)

lemma seed_unique_ids: "unique_ids (seed_products empty_db)"
  by (simp add: unique_ids_def seed_products_rows)

lemma seed_select_football:
  "select_by_id 1 (seed_products empty_db) =
     Some \<lparr>p_id = 1, p_name = ''Football'', p_price = SqlReal 499,
            p_category = ''Outdoor'', p_image = ''football.jpeg''\<rparr>"
  by (simp add: select_by_id_def seed_products_rows)

lemma strip_hacked: "strip ''Hacked'' = ''Hacked''" "strip ''1'' = ''1''"
  "strip ''x.png'' = ''x.png''"
  by code_simp+

lemma hacked_values:
  "py_float ''1'' = Some (Finite 1)" "real_affinity ''1'' = SqlReal 1"
  "endswith (lower ''x.png'') [''.png'', ''.jpg'', ''.jpeg'', ''.webp'']"
  by code_simp+

text \<open>
  C4. \<open>updateProduct\<close>, for a request that has passed the CSRF check, with the fields as
  the handler strips them. With an image given, the fields go through the validation of
  \<open>addProduct\<close> (\<open>validate_product_form\<close>): a failure is answered as \<open>admin_add\<close>
  answers it and changes nothing, a success writes the four fields to the rows of that
  id. With an empty image nothing is validated: the stored image of the id is looked up
  and written back, so for an existing id (ids being unique) the row keeps its image and
  takes the supplied name, price and category, and every other row is left as it was.
\<close>

theorem admin_update_image_retention:
  assumes csrf: "verify_csrf s f"
    and name: "name = strip (form_get f ''name'' [])"
    and price: "price = strip (form_get f ''price'' [])"
    and category: "category = strip (form_get f ''category'' [])"
    and img: "img = strip (form_get f ''image'' [])"
  shows
    "(img \<noteq> [] \<and> validate_product_form name price category img = Some err \<longrightarrow>
        admin_update i f s d = Inr (Redirect EP_admin, flash err ''error'' s, d) \<and>
        (s_admin_logged_in s = Some True \<longrightarrow>
           admin_add f s d = Inr (Redirect EP_admin, flash err ''error'' s, d)))
     \<and> (img \<noteq> [] \<and> validate_product_form name price category img = None \<longrightarrow>
        admin_update i f s d =
          Inr (Redirect EP_admin, flash ''Product updated successfully!'' ''info'' s,
               update_product name (real_affinity price) category img i (get_db d)))
     \<and> (img = [] \<and> unique_ids d \<and> select_by_id i d = Some old \<longrightarrow>
        admin_update i f s d =
          Inr (Redirect EP_admin, flash ''Product updated successfully!'' ''info'' s,
               update_product name (real_affinity price) category (p_image old) i (get_db d))
        \<and> products
            (update_product name (real_affinity price) category (p_image old) i (get_db d)) =
           map (\<lambda>p. if p_id p = i
                     then p\<lparr>p_name := name, p_price := real_affinity price,
                            p_category := category\<rparr>
                     else p) (products d)
        \<and> select_by_id i
            (update_product name (real_affinity price) category (p_image old) i (get_db d)) =
           Some (old\<lparr>p_name := name, p_price := real_affinity price,
                      p_category := category\<rparr>))"
proof -
  note run = admin_update_checked [OF csrf, of i d, folded name price category img]
  have add: "admin_add f s d = Inr (Redirect EP_admin, flash err ''error'' s, d)"
    if "s_admin_logged_in s = Some True"
      and "validate_product_form name price category img = Some err"
    using admin_add_guarded [OF that(1) csrf, of d, folded name price category img] that(2)
    by simp
  have c1: "img \<noteq> [] \<and> validate_product_form name price category img = Some err \<longrightarrow>
        admin_update i f s d = Inr (Redirect EP_admin, flash err ''error'' s, d) \<and>
        (s_admin_logged_in s = Some True \<longrightarrow>
           admin_add f s d = Inr (Redirect EP_admin, flash err ''error'' s, d))"
    using add by (simp add: run)
  have c2: "img \<noteq> [] \<and> validate_product_form name price category img = None \<longrightarrow>
        admin_update i f s d =
          Inr (Redirect EP_admin, flash ''Product updated successfully!'' ''info'' s,
               update_product name (real_affinity price) category img i (get_db d))"
    by (simp add: run)
  have c3: "img = [] \<and> unique_ids d \<and> select_by_id i d = Some old \<longrightarrow>
        admin_update i f s d =
          Inr (Redirect EP_admin, flash ''Product updated successfully!'' ''info'' s,
               update_product name (real_affinity price) category (p_image old) i (get_db d))
        \<and> products
            (update_product name (real_affinity price) category (p_image old) i (get_db d)) =
           map (\<lambda>p. if p_id p = i
                     then p\<lparr>p_name := name, p_price := real_affinity price,
                            p_category := category\<rparr>
                     else p) (products d)
        \<and> select_by_id i
            (update_product name (real_affinity price) category (p_image old) i (get_db d)) =
           Some (old\<lparr>p_name := name, p_price := real_affinity price,
                      p_category := category\<rparr>)"
    by (simp add: run select_by_id_get_db update_keeps_image select_after_update)
  show ?thesis
    by (intro conjI) (rule c1 c2 c3)+
qed

text \<open>
  The theorem on the seeded catalog: a price of \<open>0\<close> with an image given is refused by
  both routes; a valid request with an image replaces the image; and the request of the
  specification, \<open>updateProduct(1, Ball, 10, Outdoor, "")\<close>, leaves \<open>football.jpeg\<close> in
  place while the other three fields change.
\<close>

theorem admin_update_image_retention_witness:
  "admin_update 1 (product_form ''tok'' ''Ball'' ''0'' ''Outdoor'' ''b.png'')
       (admin_session ''tok'') (seed_products empty_db) =
     Inr (Redirect EP_admin,
          flash ''Price must be greater than zero.'' ''error'' (admin_session ''tok''),
          seed_products empty_db)
   \<and> admin_add (product_form ''tok'' ''Ball'' ''0'' ''Outdoor'' ''b.png'')
       (admin_session ''tok'') (seed_products empty_db) =
     Inr (Redirect EP_admin,
          flash ''Price must be greater than zero.'' ''error'' (admin_session ''tok''),
          seed_products empty_db)
   \<and> admin_update 1 (product_form ''tok'' ''Ball'' ''10'' ''Outdoor'' ''b.png'')
       (admin_session ''tok'') (seed_products empty_db) =
     Inr (Redirect EP_admin,
          flash ''Product updated successfully!'' ''info'' (admin_session ''tok''),
          update_product ''Ball'' (SqlReal 10) ''Outdoor'' ''b.png'' 1
            (get_db (seed_products empty_db)))
   \<and> unique_ids (seed_products empty_db)
   \<and> select_by_id 1 (seed_products empty_db) =
       Some \<lparr>p_id = 1, p_name = ''Football'', p_price = SqlReal 499,
              p_category = ''Outdoor'', p_image = ''football.jpeg''\<rparr>
   \<and> admin_update 1 (product_form ''tok'' ''Ball'' ''10'' ''Outdoor'' [])
       (admin_session ''tok'') (seed_products empty_db) =
     Inr (Redirect EP_admin,
          flash ''Product updated successfully!'' ''info'' (admin_session ''tok''),
          update_product ''Ball'' (SqlReal 10) ''Outdoor'' ''football.jpeg'' 1
            (get_db (seed_products empty_db)))
   \<and> select_by_id 1
       (update_product ''Ball'' (SqlReal 10) ''Outdoor'' ''football.jpeg'' 1
          (get_db (seed_products empty_db))) =
       Some \<lparr>p_id = 1, p_name = ''Ball'', p_price = SqlReal 10,
              p_category = ''Outdoor'', p_image = ''football.jpeg''\<rparr>"
proof -
  let ?football = "\<lparr>p_id = 1, p_name = ''Football'', p_price = SqlReal 499,
              p_category = ''Outdoor'', p_image = ''football.jpeg''\<rparr>"
  have auth: "s_admin_logged_in (admin_session ''tok'') = Some True"
    by (simp add: admin_session_def)
  have csrf: "verify_csrf (admin_session ''tok'') (product_form ''tok'' n p c i)" for n p c i
    by (rule verify_csrf_admin_session) simp
  have fields:
    "''Ball'' = strip (form_get (product_form ''tok'' ''Ball'' p c i) ''name'' [])"
    "''0'' = strip (form_get (product_form ''tok'' n ''0'' c i) ''price'' [])"
    "''10'' = strip (form_get (product_form ''tok'' n ''10'' c i) ''price'' [])"
    "''Outdoor'' = strip (form_get (product_form ''tok'' n p ''Outdoor'' i) ''category'' [])"
    "''b.png'' = strip (form_get (product_form ''tok'' n p c ''b.png'') ''image'' [])"
    "[] = strip (form_get (product_form ''tok'' n p c []) ''image'' [])"
    for n p c i
    by (simp_all only: product_form_fields strip_plain strip_login)
  from admin_update_image_retention
    [OF csrf fields(1) fields(2) fields(4) fields(5),
     where err = "''Price must be greater than zero.''" and i = 1
       and d = "seed_products empty_db"]
    validate_examples auth
  have rejected:
    "admin_update 1 (product_form ''tok'' ''Ball'' ''0'' ''Outdoor'' ''b.png'')
       (admin_session ''tok'') (seed_products empty_db) =
     Inr (Redirect EP_admin,
          flash ''Price must be greater than zero.'' ''error'' (admin_session ''tok''),
          seed_products empty_db)"
    "admin_add (product_form ''tok'' ''Ball'' ''0'' ''Outdoor'' ''b.png'')
       (admin_session ''tok'') (seed_products empty_db) =
     Inr (Redirect EP_admin,
          flash ''Price must be greater than zero.'' ''error'' (admin_session ''tok''),
          seed_products empty_db)"
    by simp_all
  from admin_update_image_retention
    [OF csrf fields(1) fields(3) fields(4) fields(5),
     where i = 1 and d = "seed_products empty_db"]
    validate_examples
  have replaced:
    "admin_update 1 (product_form ''tok'' ''Ball'' ''10'' ''Outdoor'' ''b.png'')
       (admin_session ''tok'') (seed_products empty_db) =
     Inr (Redirect EP_admin,
          flash ''Product updated successfully!'' ''info'' (admin_session ''tok''),
          update_product ''Ball'' (SqlReal 10) ''Outdoor'' ''b.png'' 1
            (get_db (seed_products empty_db)))"
    by (simp add: real_affinity_examples)
  from admin_update_image_retention
    [OF csrf fields(1) fields(3) fields(4) fields(6),
     where i = 1 and d = "seed_products empty_db" and old = ?football]
    seed_unique_ids seed_select_football
  have kept:
    "admin_update 1 (product_form ''tok'' ''Ball'' ''10'' ''Outdoor'' [])
       (admin_session ''tok'') (seed_products empty_db) =
     Inr (Redirect EP_admin,
          flash ''Product updated successfully!'' ''info'' (admin_session ''tok''),
          update_product ''Ball'' (SqlReal 10) ''Outdoor'' ''football.jpeg'' 1
            (get_db (seed_products empty_db)))"
    "select_by_id 1
       (update_product ''Ball'' (SqlReal 10) ''Outdoor'' ''football.jpeg'' 1
          (get_db (seed_products empty_db))) =
       Some \<lparr>p_id = 1, p_name = ''Ball'', p_price = SqlReal 10,
              p_category = ''Outdoor'', p_image = ''football.jpeg''\<rparr>"
    by (simp_all add: real_affinity_examples)
  show ?thesis
    by (intro conjI) (rule rejected replaced seed_unique_ids seed_select_football kept)+
qed

text \<open>
  C1. Every state-changing admin product operation requires an authenticated admin
  session. \<open>admin_add\<close> and \<open>admin_delete\<close> are guarded (\<open>admin_add_unauthenticated\<close>,
  \<open>admin_delete_unauthenticated\<close>); \<open>admin_update\<close> is not: from a session without the
  admin flag, holding a CSRF token, it rewrites the row of product 1 and redirects to the
  admin listing, not to the login page.
\<close>

theorem admin_update_without_admin_session:
  "s_admin_logged_in (visitor_session ''tok'') = None
   \<and> admin_update 1 (product_form ''tok'' ''Hacked'' ''1'' ''Outdoor'' ''x.png'')
       (visitor_session ''tok'') (seed_products empty_db) =
     Inr (Redirect EP_admin,
          flash ''Product updated successfully!'' ''info'' (visitor_session ''tok''),
          update_product ''Hacked'' (SqlReal 1) ''Outdoor'' ''x.png'' 1
            (get_db (seed_products empty_db)))
   \<and> select_by_id 1 (seed_products empty_db) =
       Some \<lparr>p_id = 1, p_name = ''Football'', p_price = SqlReal 499,
              p_category = ''Outdoor'', p_image = ''football.jpeg''\<rparr>
   \<and> select_by_id 1
       (update_product ''Hacked'' (SqlReal 1) ''Outdoor'' ''x.png'' 1
          (get_db (seed_products empty_db))) =
       Some \<lparr>p_id = 1, p_name = ''Hacked'', p_price = SqlReal 1,
              p_category = ''Outdoor'', p_image = ''x.png''\<rparr>"
proof -
  have flag: "s_admin_logged_in (visitor_session ''tok'') = None"
    by (simp add: visitor_session_def empty_session_def)
  have csrf: "verify_csrf (visitor_session ''tok'')
      (product_form ''tok'' ''Hacked'' ''1'' ''Outdoor'' ''x.png'')"
    by (rule verify_csrf_visitor_session) simp
  have valid: "validate_product_form ''Hacked'' ''1'' ''Outdoor'' ''x.png'' = None"
    by (simp add: validate_product_form_cases hacked_values)
  have run: "admin_update 1 (product_form ''tok'' ''Hacked'' ''1'' ''Outdoor'' ''x.png'')
       (visitor_session ''tok'') (seed_products empty_db) =
     Inr (Redirect EP_admin,
          flash ''Product updated successfully!'' ''info'' (visitor_session ''tok''),
          update_product ''Hacked'' (SqlReal 1) ''Outdoor'' ''x.png'' 1
            (get_db (seed_products empty_db)))"
    unfolding admin_update_checked [OF csrf] product_form_fields strip_hacked strip_plain
    by (simp add: valid hacked_values)
  have after: "select_by_id 1
       (update_product ''Hacked'' (SqlReal 1) ''Outdoor'' ''x.png'' 1
          (get_db (seed_products empty_db))) =
       Some \<lparr>p_id = 1, p_name = ''Hacked'', p_price = SqlReal 1,
              p_category = ''Outdoor'', p_image = ''x.png''\<rparr>"
    by (simp add: select_by_id_def products_update_product get_db_def seed_products_rows)
  show ?thesis
    by (intro conjI) (rule flag run seed_select_football after)+
qed

section \<open>The catalog query\<close>



















section \<open>The primary key is kept\<close>

text \<open>
  \<open>unique_ids\<close> holds of the empty table and is kept by every statement the handlers
  run: an inserted row takes an id above every id in the table.
\<close>

lemma fold_max_ge: "a \<le> fold max xs (a::nat)"
proof (induction xs arbitrary: a)
  case Nil
  show ?case by simp
next
  case (Cons x xs)
  have "a \<le> max x a" by simp
  also have "\<dots> \<le> fold max xs (max x a)" by (rule Cons.IH)
  finally show ?case by simp
qed

lemma fold_max_ge_elem: "x \<in> set xs \<Longrightarrow> x \<le> fold max xs (a::nat)"
proof (induction xs arbitrary: a)
  case Nil
  then show ?case by simp
next
  case (Cons y xs)
  show ?case
  proof (cases "x = y")
    case True
    have "x \<le> max y a" using True by simp
    also have "\<dots> \<le> fold max xs (max y a)" by (rule fold_max_ge)
    finally show ?thesis by simp
  next
    case False
    with Cons.prems have "x \<in> set xs" by simp
    then show ?thesis by (simp add: Cons.IH)
  qed
qed

lemma next_id_fresh: "p \<in> set (products d) \<Longrightarrow> p_id p < next_id d"
  using fold_max_ge_elem [of "p_id p" "map p_id (products d)" "product_seq d"]
  by (simp add: next_id_def less_Suc_eq_le)

lemma unique_ids_insert:
  "unique_ids d \<Longrightarrow> unique_ids (insert_product name v category img d)"
proof -
  assume u: "unique_ids d"
  have "next_id d \<notin> p_id ` set (products d)"
  proof
    assume "next_id d \<in> p_id ` set (products d)"
    then obtain p where "p \<in> set (products d)" and "p_id p = next_id d"
      by auto
    with next_id_fresh [of p d] show False by simp
  qed
  with u show ?thesis
    by (simp add: unique_ids_def insert_product_def)
qed

lemma unique_ids_delete: "unique_ids d \<Longrightarrow> unique_ids (delete_product i d)"
  by (simp add: unique_ids_def delete_product_def distinct_map_filter)

lemma unique_ids_update:
  "unique_ids d \<Longrightarrow> unique_ids (update_product name v category img i d)"
proof -
  have "map p_id (map (\<lambda>p. if p_id p = i
        then p\<lparr>p_name := name, p_price := v, p_category := category, p_image := img\<rparr>
        else p) ps) = map p_id ps" for ps :: "product list"
    by (induction ps) simp_all
  then show "unique_ids d \<Longrightarrow> unique_ids (update_product name v category img i d)"
    by (simp only: unique_ids_def products_update_product)
qed

lemma unique_ids_get_db: "unique_ids (get_db d) = unique_ids d"
  by (simp add: unique_ids_def get_db_def)

section \<open>The cart routes, case by case\<close>

text \<open>
  \<open>add_to_cart\<close> returns for every session. \<open>remove_from_cart\<close> returns when the cart
  is absent or a mapping, and on a legacy list only when the name is not in it (the list
  is then stored back as it was). \<open>cart\<close> renders the empty view when the cart is
  absent.
\<close>

lemma add_to_cart_returns:
  "\<exists>c. add_to_cart product_name s d =
     Inr (Redirect EP_product_page, s\<lparr>s_cart := Some (CartDict c)\<rparr>, d)"
  unfolding add_to_cart_def Let_def by blast

lemma remove_from_cart_dict:
  "s_cart s = Some (CartDict c) \<Longrightarrow>
   remove_from_cart product_name s d =
     Inr (Redirect EP_cart, s\<lparr>s_cart := Some (CartDict (dict_del c product_name))\<rparr>, d)"
proof -
  have "dict_del c product_name = c" if "\<not> dict_contains c product_name"
    using that by (induction c) (auto simp: dict_del_def dict_contains_def)
  then show "s_cart s = Some (CartDict c) \<Longrightarrow> ?thesis"
    by (auto simp: remove_from_cart_def)
qed

lemma remove_from_cart_absent:
  "s_cart s = None \<Longrightarrow>
   remove_from_cart product_name s d =
     Inr (Redirect EP_cart, s\<lparr>s_cart := Some (CartDict [])\<rparr>, d)"
  by (simp add: remove_from_cart_def)

lemma remove_from_cart_list:
  "s_cart s = Some (CartList l) \<Longrightarrow>
   remove_from_cart product_name s d =
     (if product_name \<in> set l then Inl TypeError
      else Inr (Redirect EP_cart, s, d))"
  by (simp add: remove_from_cart_def)

lemma cart_absent:
  "s_cart s = None \<Longrightarrow> cart s d = Inr (RenderCart [] 0, s, d)"
  by (simp add: cart_def)

end
